theory Spec2Isabelle
  imports Main
begin

text \<open>
  A shallow embedding of \<^verbatim>\<open>snapshotter/snapshotter.py\<close>, a script that makes incremental
  snapshot backups with rsync. The functions keep their names, without the leading
  underscore of \<^verbatim>\<open>_run\<close>, \<^verbatim>\<open>_datetime\<close>, \<^verbatim>\<open>_is_remote\<close>, \<^verbatim>\<open>_parse_rsync_arg\<close> and
  \<^verbatim>\<open>_parse_cli\<close>. Exceptions are values of the type \<open>error\<close>; what the script reads
  from and does to the machine goes through an environment and an explicit state.
\<close>

section \<open>Python string operations used by snapshotter.py\<close>

text \<open>\<^verbatim>\<open>s.split(sep)\<close> for a one-character separator: the pieces between the
  occurrences of the separator; never an empty list.\<close>

fun split_on :: "char \<Rightarrow> string \<Rightarrow> string list" where
  "split_on sep [] = [[]]"
| "split_on sep (c # cs) =
     (if c = sep then [] # split_on sep cs
      else (case split_on sep cs of
              [] \<Rightarrow> [[c]]
            | p # ps \<Rightarrow> (c # p) # ps))"

text \<open>\<^verbatim>\<open>s.split(sep, 1)\<close>: at most one split, at the first occurrence.\<close>

fun split_once :: "char \<Rightarrow> string \<Rightarrow> string list" where
  "split_once sep [] = [[]]"
| "split_once sep (c # cs) =
     (if c = sep then [[], cs]
      else (case split_once sep cs of
              [] \<Rightarrow> [[c]]
            | p # ps \<Rightarrow> (c # p) # ps))"

text \<open>\<^verbatim>\<open>s.endswith(t)\<close>.\<close>

definition endswith :: "string \<Rightarrow> string \<Rightarrow> bool" where
  "endswith s t = (length t \<le> length s \<and> drop (length s - length t) s = t)"

text \<open>\<^verbatim>\<open>' '.join(xs)\<close>.\<close>

fun join_sp :: "string list \<Rightarrow> string" where
  "join_sp [] = []"
| "join_sp [x] = x"
| "join_sp (x # y # ys) = x @ CHR '' '' # join_sp (y # ys)"

text \<open>\<^verbatim>\<open>s.split()\<close>: the maximal runs of non-whitespace characters. The
  whitespace of a byte string is space, tab, newline, vertical tab, form feed and
  carriage return.\<close>

definition is_space :: "char \<Rightarrow> bool" where
  "is_space c = (c = CHR '' '' \<or> c = CHR 0x09 \<or> c = CHR 0x0A \<or> c = CHR 0x0B
                 \<or> c = CHR 0x0C \<or> c = CHR 0x0D)"

fun words_acc :: "string \<Rightarrow> string \<Rightarrow> string list" where
  "words_acc acc [] = (if acc = [] then [] else [acc])"
| "words_acc acc (c # cs) =
     (if is_space c
      then (if acc = [] then words_acc [] cs else acc # words_acc [] cs)
      else words_acc (acc @ [c]) cs)"

definition split_ws :: "string \<Rightarrow> string list" where
  "split_ws s = words_acc [] s"

text \<open>\<^verbatim>\<open>str(n)\<close> for an integer.\<close>

fun digits_of :: "nat \<Rightarrow> string" where
  "digits_of n =
     (if n < 10 then [''0123456789'' ! n]
      else digits_of (n div 10) @ [''0123456789'' ! (n mod 10)])"

declare digits_of.simps [simp del]

definition str_int :: "int \<Rightarrow> string" where
  "str_int i = (if i < 0 then CHR ''-'' # digits_of (nat (- i)) else digits_of (nat i))"

text \<open>\<^verbatim>\<open>t.strftime("%Y-%m-%dT%H_%M_%S")\<close>: the year in decimal, the other fields in
  two digits.\<close>

record timestamp =
  ts_year :: nat
  ts_month :: nat
  ts_day :: nat
  ts_hour :: nat
  ts_minute :: nat
  ts_second :: nat

definition two_digits :: "nat \<Rightarrow> string" where
  "two_digits n = (if n < 10 then ''0'' else []) @ digits_of n"

definition strftime :: "timestamp \<Rightarrow> string" where
  "strftime t =
     digits_of (ts_year t) @ ''-'' @ two_digits (ts_month t) @ ''-'' @ two_digits (ts_day t)
     @ ''T'' @ two_digits (ts_hour t) @ ''_'' @ two_digits (ts_minute t)
     @ ''_'' @ two_digits (ts_second t)"

section \<open>Exceptions and the operating system\<close>

datatype error =
    CalledProcessError string string int
  | NoSuchCommandError string string
  | OSError nat string
  | ValueError
  | CommandLineArgumentsError string
  | SystemExit int
  | OtherException string

text \<open>What \<^verbatim>\<open>subprocess.check_output(argv, stderr=STDOUT)\<close> meets: the process ran
  and exited with a status, having written its combined output (the call returns the
  output on status 0 and raises its own \<^verbatim>\<open>CalledProcessError\<close> otherwise); or starting
  it failed with an \<^verbatim>\<open>OSError\<close> carrying errno and strerror; or the call raised an
  exception of another class, named here (an empty argument vector raises
  \<^verbatim>\<open>IndexError\<close>).\<close>

datatype outcome =
    Exited int string
  | Failed_to_start nat string
  | Raised string

text \<open>The surroundings of one invocation. The library calls and the state of the
  machine are parameters: the subprocess call acts on a world of type \<open>'w\<close>;
  \<open>now\<close> is what \<^verbatim>\<open>datetime.datetime.now()\<close> returns; \<open>parse_args\<close> is the
  \<^verbatim>\<open>optparse\<close> parser configured in \<^verbatim>\<open>_parse_cli\<close>, which returns the option values
  and the positional arguments, or leaves by an exception.\<close>

record options =
  opt_debug :: bool
  opt_exclude :: "string list option"

record 'w env =
  subprocess :: "string list \<Rightarrow> 'w \<Rightarrow> outcome \<times> 'w"
  now :: timestamp
  expanduser :: "string \<Rightarrow> string"
  abspath :: "string \<Rightarrow> string"
  isfile :: "string \<Rightarrow> bool"
  parse_args :: "string list \<Rightarrow> error + options \<times> string list"
  get_usage :: string
  sys_argv :: "string list"

text \<open>The state threaded through a run: the world, the lines printed, and the
  argument vectors handed to \<^verbatim>\<open>subprocess\<close>, in order.\<close>

record 'w run_state =
  world :: 'w
  printed :: "string list"
  calls :: "string list list"

section \<open>The process runner and the clock\<close>

text \<open>\<^verbatim>\<open>_datetime\<close> (lines 62 to 69) formats the current time.\<close>

definition datetime :: "'w env \<Rightarrow> string" where
  "datetime e = strftime (now e)"

text \<open>\<^verbatim>\<open>_run\<close> (lines 36 to 59) splits the command at whitespace, hands the argument
  vector to \<^verbatim>\<open>subprocess.check_output\<close>, returns the output, and turns a non-zero exit
  into \<^verbatim>\<open>CalledProcessError\<close> and an \<^verbatim>\<open>OSError\<close> with errno 2 into
  \<^verbatim>\<open>NoSuchCommandError\<close>; any other exception passes through.\<close>

definition run :: "'w env \<Rightarrow> string \<Rightarrow> 'w run_state \<Rightarrow> (error + string) \<times> 'w run_state" where
  "run e command st =
     (let argv = split_ws command;
          (oc, w') = subprocess e argv (world st);
          st' = st\<lparr>world := w', calls := calls st @ [argv]\<rparr>
      in case oc of
           Exited rc out \<Rightarrow>
             if rc = 0 then (Inr out, st')
             else (Inl (CalledProcessError command out rc), st')
         | Failed_to_start errno strerror \<Rightarrow>
             if errno = 2 then (Inl (NoSuchCommandError command strerror), st')
             else (Inl (OSError errno strerror), st')
         | Raised name \<Rightarrow> (Inl (OtherException name), st'))"

text \<open>\<^verbatim>\<open>print(s)\<close>.\<close>

definition print_line :: "string \<Rightarrow> 'w run_state \<Rightarrow> 'w run_state" where
  "print_line s st = st\<lparr>printed := printed st @ [s]\<rparr>"

section \<open>Parsing the destination\<close>

text \<open>\<^verbatim>\<open>_is_remote\<close> (line 80): \<^verbatim>\<open>':' in src_or_dest.split('/')[0]\<close>.\<close>

definition is_remote :: "string \<Rightarrow> bool" where
  "is_remote src_or_dest = (CHR '':'' \<in> set (hd (split_on CHR ''/'' src_or_dest)))"

text \<open>\<^verbatim>\<open>_parse_rsync_arg\<close> (lines 101 to 113). Unpacking the result of
  \<^verbatim>\<open>arg.split(':', 1)\<close> into two names raises \<^verbatim>\<open>ValueError\<close> unless it has two
  elements; \<^verbatim>\<open>split('@')[0]\<close> and \<^verbatim>\<open>split('@')[-1]\<close> read a list that is never empty.\<close>

definition parse_rsync_arg ::
  "'w env \<Rightarrow> string \<Rightarrow> error + (string option \<times> string option \<times> string)" where
  "parse_rsync_arg e arg =
     (if is_remote arg then
        (case split_once CHR '':'' arg of
           [before_first_colon, after_first_colon] \<Rightarrow>
             (let user = (if CHR ''@'' \<in> set before_first_colon
                          then Some (hd (split_on CHR ''@'' before_first_colon))
                          else None);
                  host = last (split_on CHR ''@'' before_first_colon);
                  path = after_first_colon
              in Inr (user, Some host, path))
         | _ \<Rightarrow> Inl ValueError)
      else Inr (None, None, abspath e (expanduser e arg)))"

section \<open>Building and running the commands\<close>

text \<open>A Python value as the \<^verbatim>\<open>compress\<close> parameter can receive it.\<close>

datatype pyval = PyBool bool | PyNone | PyStrList "string list"

definition fixed_options :: "string list" where
  "fixed_options =
     [''--archive'',
      ''--partial'',
      ''--partial-dir=partially_transferred_files'',
      ''--one-file-system'',
      ''--delete'',
      ''--delete-excluded'',
      ''--itemize-changes'',
      ''--link-dest=../latest.snapshot'',
      ''--human-readable'',
      ''--quiet'',
      ''--compress'',
      ''--fuzzy'']"

text \<open>\<^verbatim>\<open>"--exclude '%s'" % pattern\<close>.\<close>

definition exclude_option :: "string \<Rightarrow> string" where
  "exclude_option pattern = ''--exclude '' @ CHR 0x27 # pattern @ [CHR 0x27]"

text \<open>The list \<^verbatim>\<open>rsync_options\<close> after lines 125 to 150.\<close>

definition rsync_options :: "'w env \<Rightarrow> bool \<Rightarrow> string list option \<Rightarrow> string list" where
  "rsync_options e debug exclude =
     fixed_options
     @ (if isfile e (expanduser e ''~/.snapshotter/excludes'')
        then [''--exclude-from=$HOME/.snapshotter/excludes''] else [])
     @ (if debug then [''--dry-run''] else [])
     @ (case exclude of None \<Rightarrow> [] | Some patterns \<Rightarrow> map exclude_option patterns)"

text \<open>\<^verbatim>\<open>[user@]host:\<close> for a remote destination, nothing for a local one.\<close>

definition remote_prefix :: "string option \<Rightarrow> string option \<Rightarrow> string" where
  "remote_prefix user host =
     (case host of
        None \<Rightarrow> []
      | Some h \<Rightarrow> (case user of None \<Rightarrow> [] | Some u \<Rightarrow> u @ ''@'') @ h @ '':'')"

text \<open>The four command strings that \<^verbatim>\<open>snapshot\<close> holds in local variables
  before it runs anything (lines 118 to 174).\<close>

record commands =
  rsync_cmd :: string
  mv_cmd :: string
  rm_cmd :: string
  ln_cmd :: string

definition build_commands ::
  "'w env \<Rightarrow> string \<Rightarrow> string \<Rightarrow> bool \<Rightarrow> pyval \<Rightarrow> string list option
   \<Rightarrow> error + commands" where
  "build_commands e source dest debug compress exclude =
     (let source = (if \<not> endswith source ''/'' then source @ ''/'' else source);
          date = datetime e
      in case parse_rsync_arg e dest of
           Inl err \<Rightarrow> Inl err
         | Inr (user, host, snapshots_root) \<Rightarrow>
             Inr \<lparr>rsync_cmd =
                    ''rsync '' @ join_sp (rsync_options e debug exclude) @ '' '' @ source
                    @ '' '' @ remote_prefix user host
                    @ snapshots_root @ ''/incomplete.snapshot'',
                  mv_cmd =
                    (case host of
                       None \<Rightarrow> []
                     | Some h \<Rightarrow>
                         ''ssh '' @ (case user of None \<Rightarrow> [] | Some u \<Rightarrow> u @ ''@'')
                         @ h @ [CHR '' '', CHR 0x22])
                    @ ''mv '' @ snapshots_root @ ''/incomplete.snapshot ''
                    @ snapshots_root @ ''/'' @ date @ ''.snapshot''
                    @ (case host of None \<Rightarrow> [] | Some h \<Rightarrow> [CHR 0x22]),
                  rm_cmd = ''rm -f '' @ snapshots_root @ ''/latest.snapshot'',
                  ln_cmd = ''ln -s '' @ date @ ''.snapshot '' @ snapshots_root
                           @ ''/latest.snapshot''\<rparr>)"

text \<open>\<^verbatim>\<open>snapshot\<close> (lines 116 to 185): build the commands, echo and run the sync
  command, and unless \<^verbatim>\<open>debug\<close> is set echo and run the three promotion commands. An
  exception raised by \<^verbatim>\<open>_run\<close> ends the function.\<close>

definition snapshot ::
  "'w env \<Rightarrow> string \<Rightarrow> string \<Rightarrow> bool \<Rightarrow> pyval \<Rightarrow> string list option
   \<Rightarrow> 'w run_state \<Rightarrow> (error + unit) \<times> 'w run_state" where
  "snapshot e source dest debug compress exclude st =
     (case build_commands e source dest debug compress exclude of
        Inl err \<Rightarrow> (Inl err, st)
      | Inr c \<Rightarrow>
          (case run e (rsync_cmd c) (print_line (rsync_cmd c) st) of
             (Inl err, st1) \<Rightarrow> (Inl err, st1)
           | (Inr _, st1) \<Rightarrow>
               if \<not> debug then
                 (case run e (mv_cmd c) (print_line (mv_cmd c) st1) of
                    (Inl err, st2) \<Rightarrow> (Inl err, st2)
                  | (Inr _, st2) \<Rightarrow>
                      (case run e (rm_cmd c) (print_line (rm_cmd c) st2) of
                         (Inl err, st3) \<Rightarrow> (Inl err, st3)
                       | (Inr _, st3) \<Rightarrow>
                           (case run e (ln_cmd c) (print_line (ln_cmd c) st3) of
                              (Inl err, st4) \<Rightarrow> (Inl err, st4)
                            | (Inr _, st4) \<Rightarrow> (Inr (), st4))))
               else (Inr (), st1)))"

section \<open>The command line\<close>

text \<open>\<^verbatim>\<open>_parse_cli\<close> (lines 195 to 218).\<close>

definition parse_cli ::
  "'w env \<Rightarrow> string list option
   \<Rightarrow> error + (string \<times> string \<times> bool \<times> string list option)" where
  "parse_cli e args =
     (let args = (case args of None \<Rightarrow> drop 1 (sys_argv e) | Some a \<Rightarrow> a)
      in case parse_args e args of
           Inl err \<Rightarrow> Inl err
         | Inr (opts, args) \<Rightarrow>
             if length args \<noteq> 2 then Inl (CommandLineArgumentsError (get_usage e))
             else Inr (args ! 0, args ! 1, opt_debug opts, opt_exclude opts))"

text \<open>How the process leaves \<^verbatim>\<open>main\<close>: by returning, by \<^verbatim>\<open>sys.exit\<close> with
  a message, or by an exception that \<^verbatim>\<open>main\<close> does not catch.\<close>

datatype exit_status = Returned | Exit_message string | Uncaught error

text \<open>A value of \<^verbatim>\<open>options.exclude\<close> as a Python value.\<close>

definition pyval_of :: "string list option \<Rightarrow> pyval" where
  "pyval_of x = (case x of None \<Rightarrow> PyNone | Some xs \<Rightarrow> PyStrList xs)"

text \<open>\<^verbatim>\<open>main\<close> (lines 221 to 235) calls \<^verbatim>\<open>snapshot(src, dest, debug, exclude)\<close> with
  positional arguments: the fourth parameter of \<^verbatim>\<open>snapshot\<close> is \<^verbatim>\<open>compress\<close>, and
  \<^verbatim>\<open>exclude\<close> keeps its default \<^verbatim>\<open>None\<close>.\<close>

definition main :: "'w env \<Rightarrow> 'w run_state \<Rightarrow> exit_status \<times> 'w run_state" where
  "main e st =
     (case parse_cli e None of
        Inl (CommandLineArgumentsError message) \<Rightarrow> (Exit_message message, st)
      | Inl err \<Rightarrow> (Uncaught err, st)
      | Inr (src, dest, debug, exclude) \<Rightarrow>
          (case snapshot e src dest debug (pyval_of exclude) None st of
             (Inl (CalledProcessError command out exit_value), st') \<Rightarrow>
               (Exit_message (out @ '' '' @ str_int exit_value), st')
           | (Inl (NoSuchCommandError command message), st') \<Rightarrow> (Exit_message message, st')
           | (Inl err, st') \<Rightarrow> (Uncaught err, st')
           | (Inr _, st') \<Rightarrow> (Returned, st')))"

section \<open>The specification's wording, and an example machine\<close>

text \<open>A colon appears before the first path separator: some position holds a colon and
  no earlier position holds a \<open>/\<close>.\<close>

definition colon_before_first_slash :: "string \<Rightarrow> bool" where
  "colon_before_first_slash s =
     (\<exists>i \<in> {..<length s}. s ! i = CHR '':'' \<and> (\<forall>j \<in> {..<i}. s ! j \<noteq> CHR ''/''))"

text \<open>Commands echoed and run one after the other, each only if the one before it
  succeeded.\<close>

fun run_in_order ::
  "'w env \<Rightarrow> string list \<Rightarrow> 'w run_state \<Rightarrow> (error + unit) \<times> 'w run_state" where
  "run_in_order e [] st = (Inr (), st)"
| "run_in_order e (command # rest) st =
     (case run e command (print_line command st) of
        (Inl err, st') \<Rightarrow> (Inl err, st')
      | (Inr _, st') \<Rightarrow> run_in_order e rest st')"

text \<open>A machine whose world is the list of outcomes its next subprocess calls will
  meet (a call beyond the list exits with status 0). The home directory is
  \<^verbatim>\<open>/home/alice\<close>, the working directory \<^verbatim>\<open>/home/alice/work\<close>, and the clock shows
  2 March 2014, 12:30:05.\<close>

definition scripted :: "string list \<Rightarrow> outcome list \<Rightarrow> outcome \<times> outcome list" where
  "scripted argv w = (case w of [] \<Rightarrow> (Exited 0 [], []) | oc # rest \<Rightarrow> (oc, rest))"

definition example_env ::
  "bool \<Rightarrow> (string list \<Rightarrow> error + options \<times> string list) \<Rightarrow> string list
   \<Rightarrow> (outcome list) env" where
  "example_env has_excludes_file parser argv =
     \<lparr>subprocess = scripted,
      now = \<lparr>ts_year = 2014, ts_month = 3, ts_day = 2,
             ts_hour = 12, ts_minute = 30, ts_second = 5\<rparr>,
      expanduser = (\<lambda>p. if p = ''~'' \<or> take 2 p = ''~/''
                         then ''/home/alice'' @ drop 1 p else p),
      abspath = (\<lambda>p. if take 1 p = ''/'' then p else ''/home/alice/work/'' @ p),
      isfile = (\<lambda>p. has_excludes_file \<and> p = ''/home/alice/.snapshotter/excludes''),
      parse_args = parser,
      get_usage = ''Usage: snapshotter [options] SRC DEST'',
      sys_argv = argv\<rparr>"

text \<open>What the parser of \<^verbatim>\<open>_parse_cli\<close> returns for the command line
  \<^verbatim>\<open>--exclude .git/* /data /backup\<close>.\<close>

definition exclude_git_parser :: "string list \<Rightarrow> error + options \<times> string list" where
  "exclude_git_parser args =
     (if args = [''--exclude'', ''.git/*'', ''/data'', ''/backup'']
      then Inr (\<lparr>opt_debug = False, opt_exclude = Some [''.git/*'']\<rparr>, [''/data'', ''/backup''])
      else Inl (SystemExit 2))"

definition start :: "'w \<Rightarrow> 'w run_state" where
  "start w = \<lparr>world = w, printed = [], calls = []\<rparr>"

section \<open>Facts about the string operations\<close>

lemma split_on_nonempty: "split_on sep s \<noteq> []"
  by (induction s) (auto split: list.splits)

lemma hd_split_on: "hd (split_on sep s) = takeWhile (\<lambda>c. c \<noteq> sep) s"
  by (induction s) (auto split: list.splits simp: split_on_nonempty)

lemma split_on_absent: "sep \<notin> set s \<Longrightarrow> split_on sep s = [s]"
  by (induction s) auto

lemma split_on_length: "length (split_on sep s) = Suc (length (filter (\<lambda>c. c = sep) s))"
  by (induction s) (auto split: list.splits simp: split_on_nonempty)

lemma split_on_present: "split_on sep (a @ sep # b) \<noteq> [x]"
proof
  assume "split_on sep (a @ sep # b) = [x]"
  then have "length (split_on sep (a @ sep # b)) = 1" by simp
  then show False by (simp add: split_on_length)
qed

lemma last_split_on_append:
  "last (split_on sep (a @ sep # b)) = last (split_on sep b)"
  by (induction a) (auto split: list.splits simp: split_on_nonempty split_on_present)

lemma last_split_on: "last (split_on sep s) = rev (takeWhile (\<lambda>c. c \<noteq> sep) (rev s))"
proof (cases "sep \<in> set s")
  case False
  then have "\<forall>x \<in> set (rev s). x \<noteq> sep" by auto
  then have tw: "takeWhile (\<lambda>c. c \<noteq> sep) (rev s) = rev s"
    by (rule takeWhile_eq_all_conv [THEN iffD2])
  have "last (split_on sep s) = s" using False by (simp add: split_on_absent)
  then show ?thesis unfolding tw by simp
next
  case True
  then obtain a b where s: "s = a @ sep # b" and b: "sep \<notin> set b"
    by (auto dest: split_list_last)
  have "takeWhile (\<lambda>c. c \<noteq> sep) (rev b @ sep # rev a) = rev b"
    using b by (subst takeWhile_append2) auto
  with s b show ?thesis
    by (simp add: last_split_on_append split_on_absent)
qed

lemma split_once_found:
  "sep \<in> set s \<Longrightarrow>
   split_once sep s = [takeWhile (\<lambda>c. c \<noteq> sep) s, tl (dropWhile (\<lambda>c. c \<noteq> sep) s)]"
  by (induction s) (auto split: list.splits)

lemma words_acc_space:
  "words_acc acc (a @ CHR '' '' # b) = words_acc acc a @ words_acc [] b"
  by (induction a arbitrary: acc) (auto simp: is_space_def)

lemma split_ws_space: "split_ws (a @ CHR '' '' # b) = split_ws a @ split_ws b"
  by (simp add: split_ws_def words_acc_space)

lemma words_acc_token:
  "\<forall>c \<in> set s. \<not> is_space c \<Longrightarrow> words_acc acc s = (if acc @ s = [] then [] else [acc @ s])"
  by (induction s arbitrary: acc) auto

lemma split_ws_token: "s \<noteq> [] \<Longrightarrow> \<forall>c \<in> set s. \<not> is_space c \<Longrightarrow> split_ws s = [s]"
  by (simp add: split_ws_def words_acc_token)

lemma token_in_join:
  "x \<in> set xs \<Longrightarrow> x \<noteq> [] \<Longrightarrow> \<forall>c \<in> set x. \<not> is_space c \<Longrightarrow> x \<in> set (split_ws (join_sp xs))"
proof (induction xs rule: join_sp.induct)
  case 1
  then show ?case by simp
next
  case (2 y)
  then show ?case by (simp add: split_ws_token)
next
  case (3 y z zs)
  then show ?case by (auto simp: split_ws_space split_ws_token)
qed


section \<open>Facts about the destination parser\<close>

lemma parse_rsync_arg_remote:
  "is_remote arg \<Longrightarrow>
   parse_rsync_arg e arg =
     Inr (if CHR ''@'' \<in> set (takeWhile (\<lambda>c. c \<noteq> CHR '':'') arg)
          then Some (takeWhile (\<lambda>c. c \<noteq> CHR ''@'') (takeWhile (\<lambda>c. c \<noteq> CHR '':'') arg))
          else None,
          Some (rev (takeWhile (\<lambda>c. c \<noteq> CHR ''@'') (rev (takeWhile (\<lambda>c. c \<noteq> CHR '':'') arg)))),
          tl (dropWhile (\<lambda>c. c \<noteq> CHR '':'') arg))"
proof -
  assume r: "is_remote arg"
  then have "CHR '':'' \<in> set (takeWhile (\<lambda>c. c \<noteq> CHR ''/'') arg)"
    by (simp add: is_remote_def hd_split_on)
  then have "CHR '':'' \<in> set arg"
    by (auto dest: set_takeWhileD)
  then show ?thesis
    using r by (simp add: parse_rsync_arg_def split_once_found hd_split_on last_split_on)
qed

lemma parse_rsync_arg_local:
  "\<not> is_remote arg \<Longrightarrow> parse_rsync_arg e arg = Inr (None, None, abspath e (expanduser e arg))"
  by (simp add: parse_rsync_arg_def)

lemma parse_rsync_arg_total: "\<exists>user host path. parse_rsync_arg e arg = Inr (user, host, path)"
  by (cases "is_remote arg") (simp_all add: parse_rsync_arg_remote parse_rsync_arg_local)

lemma in_takeWhile_iff:
  "c \<in> set (takeWhile P s) \<longleftrightarrow> (\<exists>i \<in> {..<length s}. s ! i = c \<and> (\<forall>j \<in> {..<i}. P (s ! j)) \<and> P c)"
proof
  assume "c \<in> set (takeWhile P s)"
  then obtain i where i: "i < length (takeWhile P s)" and c: "takeWhile P s ! i = c"
    by (auto simp: in_set_conv_nth)
  have le: "length (takeWhile P s) \<le> length s"
    by (rule length_takeWhile_le)
  have pre: "P (s ! j)" if "j < length (takeWhile P s)" for j
  proof -
    have "takeWhile P s ! j \<in> set (takeWhile P s)" using that by simp
    then have "P (takeWhile P s ! j)" by (rule set_takeWhileD [THEN conjunct2])
    then show ?thesis using that by (simp add: takeWhile_nth)
  qed
  have "s ! i = c" using i c by (simp add: takeWhile_nth)
  moreover have "\<forall>j \<in> {..<i}. P (s ! j)" using pre i by auto
  moreover have "P c" using pre [OF i] \<open>s ! i = c\<close> by simp
  moreover have "i \<in> {..<length s}" using i le by simp
  ultimately show "\<exists>i \<in> {..<length s}. s ! i = c \<and> (\<forall>j \<in> {..<i}. P (s ! j)) \<and> P c"
    by blast
next
  assume "\<exists>i \<in> {..<length s}. s ! i = c \<and> (\<forall>j \<in> {..<i}. P (s ! j)) \<and> P c"
  then obtain i where i: "i < length s" and c: "s ! i = c"
      and n: "\<forall>j \<in> {..<i}. P (s ! j)" and pc: "P c"
    by auto
  have "P (s ! j)" if "j < Suc i" for j
    using that n c pc by (cases "j = i") auto
  then have "Suc i \<le> length (takeWhile P s)"
    using i by (intro length_takeWhile_less_P_nth) auto
  then have l: "i < length (takeWhile P s)" by simp
  then have "takeWhile P s ! i \<in> set (takeWhile P s)" by simp
  then show "c \<in> set (takeWhile P s)" using l c by (simp add: takeWhile_nth)
qed

lemma is_remote_iff: "is_remote s \<longleftrightarrow> colon_before_first_slash s"
  by (simp add: is_remote_def hd_split_on in_takeWhile_iff colon_before_first_slash_def)

section \<open>Facts about the runner and the command builder\<close>

lemma run_exited_zero:
  "subprocess e (split_ws command) (world st) = (Exited 0 out, w) \<Longrightarrow>
   run e command st = (Inr out, st\<lparr>world := w, calls := calls st @ [split_ws command]\<rparr>)"
  by (simp add: run_def)

lemma run_exited_nonzero:
  "subprocess e (split_ws command) (world st) = (Exited rc out, w) \<Longrightarrow> rc \<noteq> 0 \<Longrightarrow>
   run e command st =
     (Inl (CalledProcessError command out rc),
      st\<lparr>world := w, calls := calls st @ [split_ws command]\<rparr>)"
  by (simp add: run_def)

lemma run_calls:
  "calls (snd (run e command st)) = calls st @ [split_ws command]"
  by (simp add: run_def Let_def split: prod.splits outcome.splits)

lemma run_printed: "printed (snd (run e command st)) = printed st"
  by (simp add: run_def Let_def split: prod.splits outcome.splits)

lemma build_commands_total: "\<exists>c. build_commands e source dest debug compress exclude = Inr c"
proof -
  obtain user host path where "parse_rsync_arg e dest = Inr (user, host, path)"
    using parse_rsync_arg_total by blast
  then show ?thesis by (simp add: build_commands_def Let_def)
qed

lemma rsync_cmd_tokens:
  "split_ws (''rsync '' @ join_sp opts @ '' '' @ rest) =
     ''rsync'' # split_ws (join_sp opts) @ split_ws rest"
proof -
  have "''rsync '' @ join_sp opts @ '' '' @ rest
          = ''rsync'' @ CHR '' '' # (join_sp opts @ CHR '' '' # rest)"
    by simp
  then show ?thesis
    by (simp only: split_ws_space) (simp add: split_ws_def is_space_def)
qed

lemma option_in_rsync_cmd:
  assumes "build_commands e source dest debug compress exclude = Inr c"
    and "x \<in> set (rsync_options e debug exclude)"
    and "x \<noteq> []" and "\<forall>ch \<in> set x. \<not> is_space ch"
  shows "x \<in> set (split_ws (rsync_cmd c))"
proof -
  obtain rest where "rsync_cmd c = ''rsync '' @ join_sp (rsync_options e debug exclude) @ '' '' @ rest"
    using assms(1)
    by (auto simp: build_commands_def Let_def split: sum.splits)
  then show ?thesis
    using assms(2-4) by (simp only: rsync_cmd_tokens) (simp add: token_in_join)
qed

lemma digits_of_head: "digits_of n \<noteq> [] \<and> hd (digits_of n) \<in> set ''0123456789''"
proof (induction n rule: digits_of.induct)
  case (1 n)
  show ?case
  proof (cases "n < 10")
    case True
    then have "n \<in> {0, 1, 2, 3, 4, 5, 6, 7, 8, 9}" by auto
    then show ?thesis
      by (subst digits_of.simps, subst (2) digits_of.simps) auto
  next
    case False
    with 1 show ?thesis
      by (subst digits_of.simps, subst (2) digits_of.simps) simp
  qed
qed

lemma datetime_not_incomplete: "datetime e \<noteq> ''incomplete''"
proof
  assume a: "datetime e = ''incomplete''"
  have "hd (datetime e) = hd (digits_of (ts_year (now e)))"
    using digits_of_head [of "ts_year (now e)"] by (simp add: datetime_def strftime_def)
  then have "hd (datetime e) \<in> set ''0123456789''"
    using digits_of_head [of "ts_year (now e)"] by simp
  with a show False by simp
qed

lemma build_commands_parsed:
  "parse_rsync_arg e dest = Inr (user, host, root) \<Longrightarrow>
   build_commands e source dest debug compress exclude =
     Inr \<lparr>rsync_cmd =
            ''rsync '' @ join_sp (rsync_options e debug exclude) @ '' ''
            @ (if endswith source ''/'' then source else source @ ''/'')
            @ '' '' @ remote_prefix user host @ root @ ''/incomplete.snapshot'',
          mv_cmd =
            (case host of
               None \<Rightarrow> []
             | Some h \<Rightarrow>
                 ''ssh '' @ (case user of None \<Rightarrow> [] | Some u \<Rightarrow> u @ ''@'')
                 @ h @ [CHR '' '', CHR 0x22])
            @ ''mv '' @ root @ ''/incomplete.snapshot ''
            @ root @ ''/'' @ datetime e @ ''.snapshot''
            @ (case host of None \<Rightarrow> [] | Some h \<Rightarrow> [CHR 0x22]),
          rm_cmd = ''rm -f '' @ root @ ''/latest.snapshot'',
          ln_cmd = ''ln -s '' @ datetime e @ ''.snapshot '' @ root @ ''/latest.snapshot''\<rparr>"
  by (simp add: build_commands_def Let_def)

lemma last_split_ws_token:
  "t \<noteq> [] \<Longrightarrow> \<forall>ch \<in> set t. \<not> is_space ch \<Longrightarrow> last (split_ws (a @ CHR '' '' # t)) = t"
  by (simp add: split_ws_space split_ws_token)

lemma parsed_host_iff:
  "parse_rsync_arg e dest = Inr (user, host, root) \<Longrightarrow> (host = None \<longleftrightarrow> \<not> is_remote dest)"
  by (cases "is_remote dest") (auto simp: parse_rsync_arg_remote parse_rsync_arg_local)

lemma echo_and_run_exited_zero:
  "subprocess e (split_ws command) (world st) = (Exited 0 out, w) \<Longrightarrow>
   run e command (print_line command st) =
     (Inr out, \<lparr>world = w, printed = printed st @ [command],
                calls = calls st @ [split_ws command]\<rparr>)"
  by (cases st) (simp add: run_def print_line_def)

lemma echo_and_run_calls:
  "calls (snd (run e command (print_line command st))) = calls st @ [split_ws command]"
  by (simp add: run_calls print_line_def)

lemma echo_and_run_printed:
  "printed (snd (run e command (print_line command st))) = printed st @ [command]"
  by (simp add: run_printed print_line_def)

lemma echo_and_run_state:
  "run e command (print_line command st) = (r, st') \<Longrightarrow>
   calls st' = calls st @ [split_ws command] \<and> printed st' = printed st @ [command]"
  using echo_and_run_calls [of e command st] echo_and_run_printed [of e command st] by simp

lemma rsync_cmd_shape:
  "build_commands e source dest debug compress exclude = Inr c \<Longrightarrow>
   \<exists>rest. rsync_cmd c = ''rsync '' @ join_sp (rsync_options e debug exclude) @ '' '' @ rest"
  by (auto simp: build_commands_def Let_def split: sum.splits)

lemma rsync_cmd_head:
  "build_commands e source dest debug compress exclude = Inr c \<Longrightarrow>
   hd (split_ws (rsync_cmd c)) = ''rsync''"
proof -
  assume "build_commands e source dest debug compress exclude = Inr c"
  then obtain rest where
    "rsync_cmd c = ''rsync '' @ join_sp (rsync_options e debug exclude) @ '' '' @ rest"
    using rsync_cmd_shape by blast
  then show ?thesis by (simp only: rsync_cmd_tokens list.sel)
qed

lemma exclude_options_of_direct_call:
  "set (map exclude_option patterns) \<subseteq> set (rsync_options e debug (Some patterns))"
  by (auto simp: rsync_options_def)

lemma no_exclude_options_without_patterns:
  "exclude_option pattern \<notin> set (rsync_options e debug None)"
  by (auto simp: rsync_options_def fixed_options_def exclude_option_def)

lemma main_calls_snapshot:
  "parse_cli e None = Inr (src, dest, debug, exclude) \<Longrightarrow>
   snd (main e st) = snd (snapshot e src dest debug (pyval_of exclude) None st)"
  by (simp add: main_def split: prod.splits sum.splits error.splits)

lemma exclude_from_option_iff:
  "''--exclude-from=$HOME/.snapshotter/excludes'' \<in> set (rsync_options e debug exclude)
   \<longleftrightarrow> isfile e (expanduser e ''~/.snapshotter/excludes'')"
  by (auto simp: rsync_options_def fixed_options_def exclude_option_def split: option.splits)

lemma parse_user_host_example:
  "parse_rsync_arg e ''user@host:/a/b'' = Inr (Some ''user'', Some ''host'', ''/a/b'')"
  by (simp add: parse_rsync_arg_def is_remote_def)

lemma parse_host_only_example:
  "parse_rsync_arg e ''host:/a/b'' = Inr (None, Some ''host'', ''/a/b'')"
  by (simp add: parse_rsync_arg_def is_remote_def)

section \<open>The example machine, evaluated\<close>

lemma strftime_example:
  "strftime \<lparr>ts_year = 2014, ts_month = 3, ts_day = 2,
             ts_hour = 12, ts_minute = 30, ts_second = 5\<rparr> = ''2014-03-02T12_30_05''"
  by (simp add: strftime_def two_digits_def digits_of.simps)

lemma example_local_commands:
  "build_commands (example_env False p a) ''/data'' ''/backup'' False compress None =
     Inr \<lparr>rsync_cmd = ''rsync --archive --partial --partial-dir=partially_transferred_files --one-file-system --delete --delete-excluded --itemize-changes --link-dest=../latest.snapshot --human-readable --quiet --compress --fuzzy /data/ /backup/incomplete.snapshot'',
          mv_cmd = ''mv /backup/incomplete.snapshot /backup/2014-03-02T12_30_05.snapshot'',
          rm_cmd = ''rm -f /backup/latest.snapshot'',
          ln_cmd = ''ln -s 2014-03-02T12_30_05.snapshot /backup/latest.snapshot''\<rparr>"
  by (simp add: build_commands_def parse_rsync_arg_def is_remote_def endswith_def
      rsync_options_def fixed_options_def remote_prefix_def datetime_def example_env_def
      strftime_example Let_def)

lemma example_rsync_argv:
  "split_ws ''rsync --archive --partial --partial-dir=partially_transferred_files --one-file-system --delete --delete-excluded --itemize-changes --link-dest=../latest.snapshot --human-readable --quiet --compress --fuzzy /data/ /backup/incomplete.snapshot''
   = [''rsync'', ''--archive'', ''--partial'', ''--partial-dir=partially_transferred_files'',
      ''--one-file-system'', ''--delete'', ''--delete-excluded'', ''--itemize-changes'',
      ''--link-dest=../latest.snapshot'', ''--human-readable'', ''--quiet'', ''--compress'',
      ''--fuzzy'', ''/data/'', ''/backup/incomplete.snapshot'']"
  by (simp add: split_ws_def is_space_def)

lemma example_env_sel:
  "subprocess (example_env f p a) = scripted"
  by (simp add: example_env_def)

lemma example_parse_local:
  "parse_rsync_arg (example_env f p a) ''/backup'' = Inr (None, None, ''/backup'')"
  by (simp add: parse_rsync_arg_def is_remote_def example_env_def)

lemma example_remote_commands:
  "build_commands (example_env False p a) ''/data'' ''alice@example.com:/backup'' False compress None =
     Inr \<lparr>rsync_cmd = ''rsync --archive --partial --partial-dir=partially_transferred_files --one-file-system --delete --delete-excluded --itemize-changes --link-dest=../latest.snapshot --human-readable --quiet --compress --fuzzy /data/ alice@example.com:/backup/incomplete.snapshot'',
          mv_cmd = ''ssh alice@example.com '' @ CHR 0x22 # ''mv /backup/incomplete.snapshot /backup/2014-03-02T12_30_05.snapshot'' @ [CHR 0x22],
          rm_cmd = ''rm -f /backup/latest.snapshot'',
          ln_cmd = ''ln -s 2014-03-02T12_30_05.snapshot /backup/latest.snapshot''\<rparr>"
  by (simp add: build_commands_def parse_rsync_arg_def is_remote_def endswith_def
      rsync_options_def fixed_options_def remote_prefix_def datetime_def example_env_def
      strftime_example Let_def)

lemma example_trial_commands:
  "build_commands (example_env False p a) ''/data'' ''/backup'' True compress None =
     Inr \<lparr>rsync_cmd = ''rsync --archive --partial --partial-dir=partially_transferred_files --one-file-system --delete --delete-excluded --itemize-changes --link-dest=../latest.snapshot --human-readable --quiet --compress --fuzzy --dry-run /data/ /backup/incomplete.snapshot'',
          mv_cmd = ''mv /backup/incomplete.snapshot /backup/2014-03-02T12_30_05.snapshot'',
          rm_cmd = ''rm -f /backup/latest.snapshot'',
          ln_cmd = ''ln -s 2014-03-02T12_30_05.snapshot /backup/latest.snapshot''\<rparr>"
  by (simp add: build_commands_def parse_rsync_arg_def is_remote_def endswith_def
      rsync_options_def fixed_options_def remote_prefix_def datetime_def example_env_def
      strftime_example Let_def)

lemma example_excludes_file_commands:
  "build_commands (example_env True p a) ''/data'' ''/backup'' False compress None =
     Inr \<lparr>rsync_cmd = ''rsync --archive --partial --partial-dir=partially_transferred_files --one-file-system --delete --delete-excluded --itemize-changes --link-dest=../latest.snapshot --human-readable --quiet --compress --fuzzy --exclude-from=$HOME/.snapshotter/excludes /data/ /backup/incomplete.snapshot'',
          mv_cmd = ''mv /backup/incomplete.snapshot /backup/2014-03-02T12_30_05.snapshot'',
          rm_cmd = ''rm -f /backup/latest.snapshot'',
          ln_cmd = ''ln -s 2014-03-02T12_30_05.snapshot /backup/latest.snapshot''\<rparr>"
  by (simp add: build_commands_def parse_rsync_arg_def is_remote_def endswith_def
      rsync_options_def fixed_options_def remote_prefix_def datetime_def example_env_def
      strftime_example Let_def)

lemma scripted_empty: "scripted argv [] = (Exited 0 [], [])"
  by (simp add: scripted_def)

lemma example_promotion_argvs:
  "split_ws ''mv /backup/incomplete.snapshot /backup/2014-03-02T12_30_05.snapshot'' = [''mv'', ''/backup/incomplete.snapshot'', ''/backup/2014-03-02T12_30_05.snapshot'']"
  "split_ws ''rm -f /backup/latest.snapshot'' = [''rm'', ''-f'', ''/backup/latest.snapshot'']"
  "split_ws ''ln -s 2014-03-02T12_30_05.snapshot /backup/latest.snapshot'' = [''ln'', ''-s'', ''2014-03-02T12_30_05.snapshot'', ''/backup/latest.snapshot'']"
  by (simp_all add: split_ws_def is_space_def)

section \<open>The specification's claims\<close>

text \<open>
  C1. The claim asks that every pattern given on the command line reaches the sync
  command as an exclude option. \<open>main\<close> hands the patterns to \<open>snapshot\<close> in the
  position of \<open>compress\<close>, so they are dropped: on the example machine the command line
  \<^verbatim>\<open>--exclude .git/* /data /backup\<close> is parsed with the pattern \<^verbatim>\<open>.git/*\<close>, and the
  sync command that is echoed and run carries no exclude option.
\<close>

theorem main_drops_exclude_patterns:
  "parse_cli (example_env False exclude_git_parser
                [''snapshotter'', ''--exclude'', ''.git/*'', ''/data'', ''/backup'']) None =
     Inr (''/data'', ''/backup'', False, Some [''.git/*''])
   \<and> main (example_env False exclude_git_parser
             [''snapshotter'', ''--exclude'', ''.git/*'', ''/data'', ''/backup'']) (start []) =
     (Returned,
      \<lparr>world = [],
       printed = [''rsync --archive --partial --partial-dir=partially_transferred_files --one-file-system --delete --delete-excluded --itemize-changes --link-dest=../latest.snapshot --human-readable --quiet --compress --fuzzy /data/ /backup/incomplete.snapshot'',
                  ''mv /backup/incomplete.snapshot /backup/2014-03-02T12_30_05.snapshot'',
                  ''rm -f /backup/latest.snapshot'',
                  ''ln -s 2014-03-02T12_30_05.snapshot /backup/latest.snapshot''],
       calls =
        [[''rsync'', ''--archive'', ''--partial'', ''--partial-dir=partially_transferred_files'',
         ''--one-file-system'', ''--delete'', ''--delete-excluded'', ''--itemize-changes'',
         ''--link-dest=../latest.snapshot'', ''--human-readable'', ''--quiet'', ''--compress'',
         ''--fuzzy'', ''/data/'', ''/backup/incomplete.snapshot''],
         [''mv'', ''/backup/incomplete.snapshot'', ''/backup/2014-03-02T12_30_05.snapshot''],
         [''rm'', ''-f'', ''/backup/latest.snapshot''],
         [''ln'', ''-s'', ''2014-03-02T12_30_05.snapshot'', ''/backup/latest.snapshot'']]\<rparr>)"
proof -
  let ?e = "example_env False exclude_git_parser
              [''snapshotter'', ''--exclude'', ''.git/*'', ''/data'', ''/backup'']"
  have p: "parse_cli ?e None = Inr (''/data'', ''/backup'', False, Some [''.git/*''])"
    by (simp add: parse_cli_def example_env_def exclude_git_parser_def)
  have "snapshot ?e ''/data'' ''/backup'' False (pyval_of (Some [''.git/*''])) None (start []) =
     (Inr (),
      \<lparr>world = [],
       printed = [''rsync --archive --partial --partial-dir=partially_transferred_files --one-file-system --delete --delete-excluded --itemize-changes --link-dest=../latest.snapshot --human-readable --quiet --compress --fuzzy /data/ /backup/incomplete.snapshot'',
                  ''mv /backup/incomplete.snapshot /backup/2014-03-02T12_30_05.snapshot'',
                  ''rm -f /backup/latest.snapshot'',
                  ''ln -s 2014-03-02T12_30_05.snapshot /backup/latest.snapshot''],
       calls =
        [[''rsync'', ''--archive'', ''--partial'', ''--partial-dir=partially_transferred_files'',
         ''--one-file-system'', ''--delete'', ''--delete-excluded'', ''--itemize-changes'',
         ''--link-dest=../latest.snapshot'', ''--human-readable'', ''--quiet'', ''--compress'',
         ''--fuzzy'', ''/data/'', ''/backup/incomplete.snapshot''],
         [''mv'', ''/backup/incomplete.snapshot'', ''/backup/2014-03-02T12_30_05.snapshot''],
         [''rm'', ''-f'', ''/backup/latest.snapshot''],
         [''ln'', ''-s'', ''2014-03-02T12_30_05.snapshot'', ''/backup/latest.snapshot'']]\<rparr>)"
    by (simp add: snapshot_def example_local_commands run_def print_line_def start_def
        example_env_sel scripted_def example_rsync_argv example_promotion_argvs Let_def)
  with p show ?thesis by (simp add: main_def)
qed

text \<open>
  C2, as amended. With trial mode off and the sync command exited with status 0,
  \<open>snapshot\<close> echoes and runs the rename, the removal of the old link and the creation
  of the new link in this order, each only if the one before it succeeded; all three run
  when the rename and the removal exit with status 0. The rename is
  \<^verbatim>\<open>mv <root>/incomplete.snapshot <root>/<label>.snapshot\<close>, wrapped as
  \<^verbatim>\<open>ssh [user@]host "mv ..."\<close> for a remote destination; the removal is
  \<^verbatim>\<open>rm -f <root>/latest.snapshot\<close>; the link is
  \<^verbatim>\<open>ln -s <label>.snapshot <root>/latest.snapshot\<close>, its target a relative name.
\<close>

theorem promotion_in_order:
  "\<exists>user host root c.
     parse_rsync_arg e dest = Inr (user, host, root)
     \<and> build_commands e source dest False compress exclude = Inr c
     \<and> mv_cmd c =
         (case host of
            None \<Rightarrow> ''mv '' @ root @ ''/incomplete.snapshot '' @ root @ ''/'' @ datetime e
                     @ ''.snapshot''
          | Some h \<Rightarrow> ''ssh '' @ (case user of None \<Rightarrow> [] | Some u \<Rightarrow> u @ ''@'') @ h
                     @ '' '' @ [CHR 0x22] @ ''mv '' @ root @ ''/incomplete.snapshot ''
                     @ root @ ''/'' @ datetime e @ ''.snapshot'' @ [CHR 0x22])
     \<and> rm_cmd c = ''rm -f '' @ root @ ''/latest.snapshot''
     \<and> ln_cmd c = ''ln -s '' @ datetime e @ ''.snapshot '' @ root @ ''/latest.snapshot''
     \<and> (\<forall>out w1.
          subprocess e (split_ws (rsync_cmd c)) (world st) = (Exited 0 out, w1) \<longrightarrow>
            snapshot e source dest False compress exclude st =
              run_in_order e [mv_cmd c, rm_cmd c, ln_cmd c]
                \<lparr>world = w1, printed = printed st @ [rsync_cmd c],
                 calls = calls st @ [split_ws (rsync_cmd c)]\<rparr>
            \<and> (\<forall>out2 w2 out3 w3 oc w4.
                 subprocess e (split_ws (mv_cmd c)) w1 = (Exited 0 out2, w2) \<longrightarrow>
                 subprocess e (split_ws (rm_cmd c)) w2 = (Exited 0 out3, w3) \<longrightarrow>
                 subprocess e (split_ws (ln_cmd c)) w3 = (oc, w4) \<longrightarrow>
                   calls (snd (snapshot e source dest False compress exclude st)) =
                     calls st @ map split_ws [rsync_cmd c, mv_cmd c, rm_cmd c, ln_cmd c]
                   \<and> printed (snd (snapshot e source dest False compress exclude st)) =
                     printed st @ [rsync_cmd c, mv_cmd c, rm_cmd c, ln_cmd c]))"
proof -
  obtain user host root where p: "parse_rsync_arg e dest = Inr (user, host, root)"
    using parse_rsync_arg_total by blast
  obtain c where b: "build_commands e source dest False compress exclude = Inr c"
    using build_commands_total by blast
  from b have mv: "mv_cmd c =
         (case host of
            None \<Rightarrow> ''mv '' @ root @ ''/incomplete.snapshot '' @ root @ ''/'' @ datetime e
                     @ ''.snapshot''
          | Some h \<Rightarrow> ''ssh '' @ (case user of None \<Rightarrow> [] | Some u \<Rightarrow> u @ ''@'') @ h
                     @ '' '' @ [CHR 0x22] @ ''mv '' @ root @ ''/incomplete.snapshot ''
                     @ root @ ''/'' @ datetime e @ ''.snapshot'' @ [CHR 0x22])"
    by (auto simp: build_commands_parsed [OF p] split: option.splits)
  from b have rm: "rm_cmd c = ''rm -f '' @ root @ ''/latest.snapshot''"
    by (auto simp: build_commands_parsed [OF p])
  from b have ln: "ln_cmd c = ''ln -s '' @ datetime e @ ''.snapshot '' @ root @ ''/latest.snapshot''"
    by (auto simp: build_commands_parsed [OF p])
  have seq: "snapshot e source dest False compress exclude st =
              run_in_order e [mv_cmd c, rm_cmd c, ln_cmd c]
                \<lparr>world = w1, printed = printed st @ [rsync_cmd c],
                 calls = calls st @ [split_ws (rsync_cmd c)]\<rparr>"
    if "subprocess e (split_ws (rsync_cmd c)) (world st) = (Exited 0 out, w1)" for out w1
    by (simp add: snapshot_def b echo_and_run_exited_zero [OF that]
        split: prod.splits sum.splits)
  have full: "calls (snd (snapshot e source dest False compress exclude st)) =
                     calls st @ map split_ws [rsync_cmd c, mv_cmd c, rm_cmd c, ln_cmd c]
                   \<and> printed (snd (snapshot e source dest False compress exclude st)) =
                     printed st @ [rsync_cmd c, mv_cmd c, rm_cmd c, ln_cmd c]"
    if "subprocess e (split_ws (rsync_cmd c)) (world st) = (Exited 0 out, w1)"
      and "subprocess e (split_ws (mv_cmd c)) w1 = (Exited 0 out2, w2)"
      and "subprocess e (split_ws (rm_cmd c)) w2 = (Exited 0 out3, w3)"
      and "subprocess e (split_ws (ln_cmd c)) w3 = (oc, w4)"
    for out w1 out2 w2 out3 w3 oc w4
    using that(2-4)
    by (auto simp: seq [OF that(1)] echo_and_run_exited_zero
        split: prod.splits sum.splits dest: echo_and_run_state)
  from p b mv rm ln seq full show ?thesis by blast
qed


theorem promotion_in_order_witness:
  "printed (snd (snapshot (example_env False exclude_git_parser []) ''/data''
                   ''alice@example.com:/backup'' False (PyBool True) None (start []))) =
     [''rsync --archive --partial --partial-dir=partially_transferred_files --one-file-system --delete --delete-excluded --itemize-changes --link-dest=../latest.snapshot --human-readable --quiet --compress --fuzzy /data/ alice@example.com:/backup/incomplete.snapshot'',
      ''ssh alice@example.com '' @ CHR 0x22 # ''mv /backup/incomplete.snapshot /backup/2014-03-02T12_30_05.snapshot'' @ [CHR 0x22],
      ''rm -f /backup/latest.snapshot'',
      ''ln -s 2014-03-02T12_30_05.snapshot /backup/latest.snapshot'']"
proof -
  let ?e = "example_env False exclude_git_parser []"
  let ?st = "start ([] :: outcome list)"
  let ?run = "snapshot ?e ''/data'' ''alice@example.com:/backup'' False (PyBool True) None ?st"
  obtain c where b: "build_commands ?e ''/data'' ''alice@example.com:/backup'' False (PyBool True) None = Inr c"
    and f: "\<forall>out w1.
          subprocess ?e (split_ws (rsync_cmd c)) (world ?st) = (Exited 0 out, w1) \<longrightarrow>
            ?run = run_in_order ?e [mv_cmd c, rm_cmd c, ln_cmd c]
                \<lparr>world = w1, printed = printed ?st @ [rsync_cmd c],
                 calls = calls ?st @ [split_ws (rsync_cmd c)]\<rparr>
            \<and> (\<forall>out2 w2 out3 w3 oc w4.
                 subprocess ?e (split_ws (mv_cmd c)) w1 = (Exited 0 out2, w2) \<longrightarrow>
                 subprocess ?e (split_ws (rm_cmd c)) w2 = (Exited 0 out3, w3) \<longrightarrow>
                 subprocess ?e (split_ws (ln_cmd c)) w3 = (oc, w4) \<longrightarrow>
                   calls (snd ?run) =
                     calls ?st @ map split_ws [rsync_cmd c, mv_cmd c, rm_cmd c, ln_cmd c]
                   \<and> printed (snd ?run) =
                     printed ?st @ [rsync_cmd c, mv_cmd c, rm_cmd c, ln_cmd c])"
    using promotion_in_order [of ?e "''alice@example.com:/backup''" "''/data''" "PyBool True" None ?st]
    by blast
  have s: "subprocess ?e argv [] = (Exited 0 [], [])" for argv
    by (simp add: example_env_sel scripted_empty)
  have w: "world ?st = []" by (simp add: start_def)
  have "printed (snd ?run) = printed ?st @ [rsync_cmd c, mv_cmd c, rm_cmd c, ln_cmd c]"
    using f s w by metis
  moreover from b have "rsync_cmd c = ''rsync --archive --partial --partial-dir=partially_transferred_files --one-file-system --delete --delete-excluded --itemize-changes --link-dest=../latest.snapshot --human-readable --quiet --compress --fuzzy /data/ alice@example.com:/backup/incomplete.snapshot''"
    and "mv_cmd c = ''ssh alice@example.com '' @ CHR 0x22 # ''mv /backup/incomplete.snapshot /backup/2014-03-02T12_30_05.snapshot'' @ [CHR 0x22]"
    and "rm_cmd c = ''rm -f /backup/latest.snapshot''"
    and "ln_cmd c = ''ln -s 2014-03-02T12_30_05.snapshot /backup/latest.snapshot''"
    by (auto simp: example_remote_commands)
  ultimately show ?thesis by (simp add: start_def)
qed

text \<open>
  C2 as stated fails when a promotion command fails: on the example machine the sync
  command exits with status 0 and the rename with status 1, and the rename is the only
  promotion command that runs.
\<close>

theorem promotion_stops_at_failed_rename:
  "snapshot (example_env False exclude_git_parser []) ''/data'' ''/backup'' False (PyBool True) None
     (start [Exited 0 [], Exited 1 ''mv: cannot move'']) =
   (Inl (CalledProcessError
           ''mv /backup/incomplete.snapshot /backup/2014-03-02T12_30_05.snapshot''
           ''mv: cannot move'' 1),
    \<lparr>world = [],
     printed =
       [''rsync --archive --partial --partial-dir=partially_transferred_files --one-file-system --delete --delete-excluded --itemize-changes --link-dest=../latest.snapshot --human-readable --quiet --compress --fuzzy /data/ /backup/incomplete.snapshot'',
        ''mv /backup/incomplete.snapshot /backup/2014-03-02T12_30_05.snapshot''],
     calls =
       [[''rsync'', ''--archive'', ''--partial'', ''--partial-dir=partially_transferred_files'',
         ''--one-file-system'', ''--delete'', ''--delete-excluded'', ''--itemize-changes'',
         ''--link-dest=../latest.snapshot'', ''--human-readable'', ''--quiet'', ''--compress'',
         ''--fuzzy'', ''/data/'', ''/backup/incomplete.snapshot''],
        [''mv'', ''/backup/incomplete.snapshot'', ''/backup/2014-03-02T12_30_05.snapshot'']]\<rparr>)"
  by (simp add: snapshot_def example_local_commands run_def print_line_def start_def
      example_env_sel scripted_def example_rsync_argv Let_def)
     (simp add: split_ws_def is_space_def)

text \<open>
  C3, as amended. In trial mode the sync command is the only command echoed and the only
  one handed to a subprocess, whatever its outcome; its argument vector starts with
  \<^verbatim>\<open>rsync\<close> and holds \<^verbatim>\<open>--dry-run\<close>. The three promotion command strings are built
  all the same, and left unused.
\<close>

theorem trial_mode_runs_sync_only:
  "\<exists>c. build_commands e source dest True compress exclude = Inr c
     \<and> mv_cmd c \<noteq> [] \<and> rm_cmd c \<noteq> [] \<and> ln_cmd c \<noteq> []
     \<and> calls (snd (snapshot e source dest True compress exclude st)) =
         calls st @ [split_ws (rsync_cmd c)]
     \<and> printed (snd (snapshot e source dest True compress exclude st)) =
         printed st @ [rsync_cmd c]
     \<and> hd (split_ws (rsync_cmd c)) = ''rsync''
     \<and> ''--dry-run'' \<in> set (rsync_options e True exclude)
     \<and> ''--dry-run'' \<in> set (split_ws (rsync_cmd c))"
proof -
  obtain user host root where p: "parse_rsync_arg e dest = Inr (user, host, root)"
    using parse_rsync_arg_total by blast
  obtain c where b: "build_commands e source dest True compress exclude = Inr c"
    using build_commands_total by blast
  from b have built: "mv_cmd c \<noteq> []" "rm_cmd c \<noteq> []" "ln_cmd c \<noteq> []"
    by (auto simp: build_commands_parsed [OF p])
  have st: "calls (snd (snapshot e source dest True compress exclude st)) =
              calls st @ [split_ws (rsync_cmd c)]
            \<and> printed (snd (snapshot e source dest True compress exclude st)) =
              printed st @ [rsync_cmd c]"
    by (auto simp: snapshot_def b split: prod.splits sum.splits dest: echo_and_run_state)
  from b have "hd (split_ws (rsync_cmd c)) = ''rsync''"
    by (rule rsync_cmd_head)
  moreover have o: "''--dry-run'' \<in> set (rsync_options e True exclude)"
    by (simp add: rsync_options_def)
  moreover from o have "''--dry-run'' \<in> set (split_ws (rsync_cmd c))"
    by (rule option_in_rsync_cmd [OF b]) (simp_all add: is_space_def)
  ultimately show ?thesis using b built st by blast
qed

text \<open>
  C3 as stated fails on "built": in trial mode on the example machine the rename, removal
  and link commands are built next to the sync command.
\<close>

theorem trial_mode_builds_promotion_commands:
  "build_commands (example_env False exclude_git_parser []) ''/data'' ''/backup'' True (PyBool True) None =
     Inr \<lparr>rsync_cmd = ''rsync --archive --partial --partial-dir=partially_transferred_files --one-file-system --delete --delete-excluded --itemize-changes --link-dest=../latest.snapshot --human-readable --quiet --compress --fuzzy --dry-run /data/ /backup/incomplete.snapshot'',
          mv_cmd = ''mv /backup/incomplete.snapshot /backup/2014-03-02T12_30_05.snapshot'',
          rm_cmd = ''rm -f /backup/latest.snapshot'',
          ln_cmd = ''ln -s 2014-03-02T12_30_05.snapshot /backup/latest.snapshot''\<rparr>"
  by (rule example_trial_commands)

text \<open>
  C4. When the sync command exits with a non-zero status, \<open>snapshot\<close> raises the generic
  failure carrying the sync command, its combined output and its exit code; the sync
  command is the only one echoed and the only one handed to a subprocess, so no promotion
  command runs.
\<close>

theorem sync_failure_no_promotion:
  "\<exists>c. build_commands e source dest debug compress exclude = Inr c
     \<and> (\<forall>rc out w. subprocess e (split_ws (rsync_cmd c)) (world st) = (Exited rc out, w)
            \<longrightarrow> rc \<noteq> 0
            \<longrightarrow> snapshot e source dest debug compress exclude st =
                 (Inl (CalledProcessError (rsync_cmd c) out rc),
                  \<lparr>world = w, printed = printed st @ [rsync_cmd c],
                   calls = calls st @ [split_ws (rsync_cmd c)]\<rparr>))"
proof -
  obtain c where c: "build_commands e source dest debug compress exclude = Inr c"
    using build_commands_total by blast
  have "snapshot e source dest debug compress exclude st =
          (Inl (CalledProcessError (rsync_cmd c) out rc),
           \<lparr>world = w, printed = printed st @ [rsync_cmd c],
            calls = calls st @ [split_ws (rsync_cmd c)]\<rparr>)"
    if "subprocess e (split_ws (rsync_cmd c)) (world st) = (Exited rc out, w)" and "rc \<noteq> 0"
    for rc out w
    using that c by (simp add: snapshot_def run_def print_line_def)
  with c show ?thesis by blast
qed

theorem sync_failure_no_promotion_witness:
  "subprocess (example_env False exclude_git_parser []) (split_ws ''rsync --archive --partial --partial-dir=partially_transferred_files --one-file-system --delete --delete-excluded --itemize-changes --link-dest=../latest.snapshot --human-readable --quiet --compress --fuzzy /data/ /backup/incomplete.snapshot'')
     (world (start [Exited 23 ''rsync error: partial transfer''])) =
     (Exited 23 ''rsync error: partial transfer'', [])
   \<and> snapshot (example_env False exclude_git_parser []) ''/data'' ''/backup'' False (PyBool True) None
       (start [Exited 23 ''rsync error: partial transfer'']) =
     (Inl (CalledProcessError ''rsync --archive --partial --partial-dir=partially_transferred_files --one-file-system --delete --delete-excluded --itemize-changes --link-dest=../latest.snapshot --human-readable --quiet --compress --fuzzy /data/ /backup/incomplete.snapshot'' ''rsync error: partial transfer'' 23),
      \<lparr>world = [], printed = [''rsync --archive --partial --partial-dir=partially_transferred_files --one-file-system --delete --delete-excluded --itemize-changes --link-dest=../latest.snapshot --human-readable --quiet --compress --fuzzy /data/ /backup/incomplete.snapshot''], calls = [split_ws ''rsync --archive --partial --partial-dir=partially_transferred_files --one-file-system --delete --delete-excluded --itemize-changes --link-dest=../latest.snapshot --human-readable --quiet --compress --fuzzy /data/ /backup/incomplete.snapshot'']\<rparr>)"
proof -
  let ?e = "example_env False exclude_git_parser []"
  let ?st = "start [Exited 23 ''rsync error: partial transfer'']"
  obtain c where b: "build_commands ?e ''/data'' ''/backup'' False (PyBool True) None = Inr c"
    and f: "\<forall>rc out w. subprocess ?e (split_ws (rsync_cmd c)) (world ?st) = (Exited rc out, w)
            \<longrightarrow> rc \<noteq> 0
            \<longrightarrow> snapshot ?e ''/data'' ''/backup'' False (PyBool True) None ?st =
                 (Inl (CalledProcessError (rsync_cmd c) out rc),
                  \<lparr>world = w, printed = printed ?st @ [rsync_cmd c],
                   calls = calls ?st @ [split_ws (rsync_cmd c)]\<rparr>)"
    using sync_failure_no_promotion [of ?e "''/data''" "''/backup''" False "PyBool True" None ?st]
    by blast
  from b have c: "rsync_cmd c = ''rsync --archive --partial --partial-dir=partially_transferred_files --one-file-system --delete --delete-excluded --itemize-changes --link-dest=../latest.snapshot --human-readable --quiet --compress --fuzzy /data/ /backup/incomplete.snapshot''"
    by (auto simp: example_local_commands)
  have s: "subprocess ?e (split_ws ''rsync --archive --partial --partial-dir=partially_transferred_files --one-file-system --delete --delete-excluded --itemize-changes --link-dest=../latest.snapshot --human-readable --quiet --compress --fuzzy /data/ /backup/incomplete.snapshot'') (world ?st) = (Exited 23 ''rsync error: partial transfer'', [])"
    by (simp add: example_env_sel scripted_def start_def)
  with f [rule_format, of 23 "''rsync error: partial transfer''" "[]"] c
  have "snapshot ?e ''/data'' ''/backup'' False (PyBool True) None ?st =
          (Inl (CalledProcessError ''rsync --archive --partial --partial-dir=partially_transferred_files --one-file-system --delete --delete-excluded --itemize-changes --link-dest=../latest.snapshot --human-readable --quiet --compress --fuzzy /data/ /backup/incomplete.snapshot'' ''rsync error: partial transfer'' 23),
           \<lparr>world = [], printed = printed ?st @ [''rsync --archive --partial --partial-dir=partially_transferred_files --one-file-system --delete --delete-excluded --itemize-changes --link-dest=../latest.snapshot --human-readable --quiet --compress --fuzzy /data/ /backup/incomplete.snapshot''], calls = calls ?st @ [split_ws ''rsync --archive --partial --partial-dir=partially_transferred_files --one-file-system --delete --delete-excluded --itemize-changes --link-dest=../latest.snapshot --human-readable --quiet --compress --fuzzy /data/ /backup/incomplete.snapshot'']\<rparr>)"
    by simp
  with s show ?thesis by (simp add: start_def)
qed

text \<open>
  C5. The sync command built for any source, destination and options is
  \<^verbatim>\<open>rsync <options> <source>/ <target>\<close>, where the target is the parsed destination root
  followed by \<^verbatim>\<open>/incomplete.snapshot\<close>, behind \<^verbatim>\<open>[user@]host:\<close> exactly when the
  destination is remote. The target is never the name \<^verbatim>\<open><root>/<label>.snapshot\<close> of a
  finished snapshot. The option \<^verbatim>\<open>--link-dest=../latest.snapshot\<close> is always in the
  option list and in the argument vector. When the target holds no whitespace it is the
  last argument handed to the subprocess.
\<close>

theorem sync_target:
  "\<exists>user host root c.
     parse_rsync_arg e dest = Inr (user, host, root)
     \<and> build_commands e source dest debug compress exclude = Inr c
     \<and> (host = None \<longleftrightarrow> \<not> is_remote dest)
     \<and> rsync_cmd c =
         ''rsync '' @ join_sp (rsync_options e debug exclude) @ '' ''
         @ (if endswith source ''/'' then source else source @ ''/'') @ '' ''
         @ (case host of
              None \<Rightarrow> []
            | Some h \<Rightarrow> (case user of None \<Rightarrow> [] | Some u \<Rightarrow> u @ ''@'') @ h @ '':'')
         @ root @ ''/incomplete.snapshot''
     \<and> root @ ''/incomplete.snapshot'' \<noteq> root @ ''/'' @ datetime e @ ''.snapshot''
     \<and> ''--link-dest=../latest.snapshot'' \<in> set (rsync_options e debug exclude)
     \<and> ''--link-dest=../latest.snapshot'' \<in> set (split_ws (rsync_cmd c))
     \<and> ((\<forall>ch \<in> set (remote_prefix user host @ root). \<not> is_space ch) \<longrightarrow>
          last (split_ws (rsync_cmd c)) = remote_prefix user host @ root @ ''/incomplete.snapshot'')"
proof -
  obtain user host root where p: "parse_rsync_arg e dest = Inr (user, host, root)"
    using parse_rsync_arg_total by blast
  define c where "c = \<lparr>rsync_cmd =
            ''rsync '' @ join_sp (rsync_options e debug exclude) @ '' ''
            @ (if endswith source ''/'' then source else source @ ''/'')
            @ '' '' @ remote_prefix user host @ root @ ''/incomplete.snapshot'',
          mv_cmd =
            (case host of
               None \<Rightarrow> []
             | Some h \<Rightarrow>
                 ''ssh '' @ (case user of None \<Rightarrow> [] | Some u \<Rightarrow> u @ ''@'')
                 @ h @ [CHR '' '', CHR 0x22])
            @ ''mv '' @ root @ ''/incomplete.snapshot ''
            @ root @ ''/'' @ datetime e @ ''.snapshot''
            @ (case host of None \<Rightarrow> [] | Some h \<Rightarrow> [CHR 0x22]),
          rm_cmd = ''rm -f '' @ root @ ''/latest.snapshot'',
          ln_cmd = ''ln -s '' @ datetime e @ ''.snapshot '' @ root @ ''/latest.snapshot''\<rparr>"
  have b: "build_commands e source dest debug compress exclude = Inr c"
    unfolding c_def using p by (rule build_commands_parsed)
  have h: "host = None \<longleftrightarrow> \<not> is_remote dest"
    using p by (rule parsed_host_iff)
  have r: "rsync_cmd c =
         ''rsync '' @ join_sp (rsync_options e debug exclude) @ '' ''
         @ (if endswith source ''/'' then source else source @ ''/'') @ '' ''
         @ (case host of
              None \<Rightarrow> []
            | Some h \<Rightarrow> (case user of None \<Rightarrow> [] | Some u \<Rightarrow> u @ ''@'') @ h @ '':'')
         @ root @ ''/incomplete.snapshot''"
    by (simp add: c_def remote_prefix_def)
  have n: "root @ ''/incomplete.snapshot'' \<noteq> root @ ''/'' @ datetime e @ ''.snapshot''"
    using datetime_not_incomplete [of e] by simp
  have o: "''--link-dest=../latest.snapshot'' \<in> set (rsync_options e debug exclude)"
    by (simp add: rsync_options_def fixed_options_def)
  then have t: "''--link-dest=../latest.snapshot'' \<in> set (split_ws (rsync_cmd c))"
    by (rule option_in_rsync_cmd [OF b]) (simp_all add: is_space_def)
  have l: "last (split_ws (rsync_cmd c)) = remote_prefix user host @ root @ ''/incomplete.snapshot''"
    if "\<forall>ch \<in> set (remote_prefix user host @ root). \<not> is_space ch"
  proof -
    define pre where "pre = ''rsync '' @ join_sp (rsync_options e debug exclude) @ '' ''
             @ (if endswith source ''/'' then source else source @ ''/'')"
    define target where "target = remote_prefix user host @ root @ ''/incomplete.snapshot''"
    have eq: "rsync_cmd c = pre @ CHR '' '' # target"
      by (simp add: c_def pre_def target_def)
    have ne: "target \<noteq> []" by (simp add: target_def)
    have ns: "\<forall>ch \<in> set target. \<not> is_space ch"
      using that by (auto simp: target_def is_space_def)
    have "last (split_ws (pre @ CHR '' '' # target)) = target"
      using ne ns by (rule last_split_ws_token)
    then show ?thesis by (simp only: eq target_def)
  qed
  from p b h r n o t l show ?thesis by blast
qed


theorem sync_target_witness:
  "last (split_ws ''rsync --archive --partial --partial-dir=partially_transferred_files --one-file-system --delete --delete-excluded --itemize-changes --link-dest=../latest.snapshot --human-readable --quiet --compress --fuzzy /data/ /backup/incomplete.snapshot'') = ''/backup/incomplete.snapshot''
   \<and> ''--link-dest=../latest.snapshot'' \<in> set (split_ws ''rsync --archive --partial --partial-dir=partially_transferred_files --one-file-system --delete --delete-excluded --itemize-changes --link-dest=../latest.snapshot --human-readable --quiet --compress --fuzzy /data/ /backup/incomplete.snapshot'')"
proof -
  let ?e = "example_env False exclude_git_parser []"
  obtain user host root c where p: "parse_rsync_arg ?e ''/backup'' = Inr (user, host, root)"
    and b: "build_commands ?e ''/data'' ''/backup'' False (PyBool True) None = Inr c"
    and t: "''--link-dest=../latest.snapshot'' \<in> set (split_ws (rsync_cmd c))"
    and l: "(\<forall>ch \<in> set (remote_prefix user host @ root). \<not> is_space ch) \<longrightarrow>
            last (split_ws (rsync_cmd c)) = remote_prefix user host @ root @ ''/incomplete.snapshot''"
    using sync_target [of ?e "''/backup''" "''/data''" False "PyBool True" None] by blast
  from p have u: "user = None" "host = None" "root = ''/backup''"
    by (simp_all add: example_parse_local)
  from b have c: "rsync_cmd c = ''rsync --archive --partial --partial-dir=partially_transferred_files --one-file-system --delete --delete-excluded --itemize-changes --link-dest=../latest.snapshot --human-readable --quiet --compress --fuzzy /data/ /backup/incomplete.snapshot''"
    by (auto simp: example_local_commands)
  have "\<forall>ch \<in> set (remote_prefix user host @ root). \<not> is_space ch"
    by (simp add: u remote_prefix_def is_space_def)
  with l have "last (split_ws (rsync_cmd c)) = remote_prefix user host @ root @ ''/incomplete.snapshot''"
    by blast
  with t show ?thesis
    by (simp add: c u remote_prefix_def)
qed

text \<open>
  C6. The claim asks that the user be everything before the last \<open>@\<close> of the head. The
  parser takes the host after the last \<open>@\<close> and the user before the first one: for a
  head with two \<open>@\<close> the part between them is lost.
\<close>

theorem user_cut_at_first_at_sign:
  "parse_rsync_arg e ''bob@example.org@backup.example.net:/srv/snapshots'' =
     Inr (Some ''bob'', Some ''backup.example.net'', ''/srv/snapshots'')"
  by (simp add: parse_rsync_arg_def is_remote_def)

text \<open>
  C7. An argument is classified as remote exactly when a colon appears before the first
  \<open>/\<close>. A local argument, such as \<^verbatim>\<open>/tmp/a:b\<close>, yields no user, no host, and the path
  \<^verbatim>\<open>os.path.abspath(os.path.expanduser(arg))\<close>; a remote argument yields a host.
\<close>

theorem destination_classification:
  "(is_remote arg \<longleftrightarrow> colon_before_first_slash arg)
   \<and> (\<not> is_remote arg \<longrightarrow>
        parse_rsync_arg e arg = Inr (None, None, abspath e (expanduser e arg)))
   \<and> (is_remote arg \<longrightarrow>
        (\<exists>user host path. parse_rsync_arg e arg = Inr (user, Some host, path)))
   \<and> \<not> is_remote ''/tmp/a:b''"
  by (simp add: is_remote_iff [symmetric] parse_rsync_arg_local parse_rsync_arg_remote)
     (simp add: is_remote_def)

theorem destination_classification_witness:
  "\<not> is_remote ''~/backups''
   \<and> parse_rsync_arg (example_env False exclude_git_parser []) ''~/backups''
       = Inr (None, None, ''/home/alice/backups'')
   \<and> is_remote ''host:/tmp''
   \<and> (\<exists>user host path. parse_rsync_arg (example_env False exclude_git_parser []) ''host:/tmp''
         = Inr (user, Some host, path))"
  using destination_classification [of "''~/backups''" "example_env False exclude_git_parser []"]
    destination_classification [of "''host:/tmp''" "example_env False exclude_git_parser []"]
  by (simp add: is_remote_def example_env_def)

text \<open>
  C8. The claim asks that, when the excludes file exists under the expanded home
  directory, the sync command be told to read that file. On the example machine the file
  \<^verbatim>\<open>/home/alice/.snapshotter/excludes\<close> exists, and the argument handed to the sync tool
  names the path \<^verbatim>\<open>$HOME/.snapshotter/excludes\<close> literally: the command is split into an
  argument vector and no shell expands the variable.
\<close>

theorem excludes_file_named_by_unexpanded_home:
  "expanduser (example_env True exclude_git_parser []) ''~/.snapshotter/excludes'' =
     ''/home/alice/.snapshotter/excludes''
   \<and> isfile (example_env True exclude_git_parser []) ''/home/alice/.snapshotter/excludes''
   \<and> hd (calls (snd (snapshot (example_env True exclude_git_parser []) ''/data'' ''/backup''
                        False (PyBool True) None (start [])))) =
       [''rsync'', ''--archive'', ''--partial'', ''--partial-dir=partially_transferred_files'',
         ''--one-file-system'', ''--delete'', ''--delete-excluded'', ''--itemize-changes'',
         ''--link-dest=../latest.snapshot'', ''--human-readable'', ''--quiet'', ''--compress'',
         ''--fuzzy'', ''--exclude-from=$HOME/.snapshotter/excludes'', ''/data/'',
        ''/backup/incomplete.snapshot'']"
proof -
  have "split_ws ''rsync --archive --partial --partial-dir=partially_transferred_files --one-file-system --delete --delete-excluded --itemize-changes --link-dest=../latest.snapshot --human-readable --quiet --compress --fuzzy --exclude-from=$HOME/.snapshotter/excludes /data/ /backup/incomplete.snapshot'' =
       [''rsync'', ''--archive'', ''--partial'', ''--partial-dir=partially_transferred_files'',
         ''--one-file-system'', ''--delete'', ''--delete-excluded'', ''--itemize-changes'',
         ''--link-dest=../latest.snapshot'', ''--human-readable'', ''--quiet'', ''--compress'',
         ''--fuzzy'', ''--exclude-from=$HOME/.snapshotter/excludes'', ''/data/'',
        ''/backup/incomplete.snapshot'']"
    by (simp add: split_ws_def is_space_def)
  then have "hd (calls (snd (snapshot (example_env True exclude_git_parser []) ''/data'' ''/backup''
                        False (PyBool True) None (start [])))) =
       [''rsync'', ''--archive'', ''--partial'', ''--partial-dir=partially_transferred_files'',
         ''--one-file-system'', ''--delete'', ''--delete-excluded'', ''--itemize-changes'',
         ''--link-dest=../latest.snapshot'', ''--human-readable'', ''--quiet'', ''--compress'',
         ''--fuzzy'', ''--exclude-from=$HOME/.snapshotter/excludes'', ''/data/'',
        ''/backup/incomplete.snapshot'']"
    by (simp add: snapshot_def example_excludes_file_commands run_def print_line_def start_def
        example_env_sel scripted_def Let_def)
  then show ?thesis by (simp add: example_env_def)
qed

text \<open>
  C9. The process runner raises the generic failure, carrying the command, the combined
  output and the exit code, exactly when the process ran and exited with a non-zero
  status; it raises the command-not-found failure exactly when starting the process failed
  with errno 2 (no such file); a process that could not be started never produces the
  generic failure.
\<close>

theorem run_failure_classification:
  "(fst (run e command st) = Inl (CalledProcessError c out rc)
      \<longleftrightarrow> c = command \<and> rc \<noteq> 0
          \<and> fst (subprocess e (split_ws command) (world st)) = Exited rc out)
   \<and> (fst (run e command st) = Inl (NoSuchCommandError c message)
      \<longleftrightarrow> c = command
          \<and> fst (subprocess e (split_ws command) (world st)) = Failed_to_start 2 message)
   \<and> (fst (subprocess e (split_ws command) (world st)) = Failed_to_start errno message
      \<longrightarrow> fst (run e command st) \<noteq> Inl (CalledProcessError c out rc))"
  by (auto simp: run_def Let_def split: prod.splits outcome.splits if_splits)

theorem run_failure_classification_witness:
  "fst (subprocess (example_env False exclude_git_parser []) (split_ws ''rsync /data/ /backup'')
         (world (start [Failed_to_start 2 ''No such file or directory'']))) =
     Failed_to_start 2 ''No such file or directory''
   \<and> fst (run (example_env False exclude_git_parser []) ''rsync /data/ /backup''
            (start [Failed_to_start 2 ''No such file or directory''])) =
     Inl (NoSuchCommandError ''rsync /data/ /backup'' ''No such file or directory'')"
  using run_failure_classification
    [of "example_env False exclude_git_parser []" "''rsync /data/ /backup''"
        "start [Failed_to_start 2 ''No such file or directory'']"
        "''rsync /data/ /backup''" "[]" 0 "''No such file or directory''" 2]
  by (simp add: example_env_def scripted_def start_def)

text \<open>
  C10. Two runs of \<open>snapshot\<close> that differ only in the \<open>compress\<close> argument build the
  same four command strings and behave alike, and the argument vector of the sync command
  always holds \<^verbatim>\<open>--compress\<close>.
\<close>

theorem compress_has_no_effect:
  "snapshot e source dest debug compress1 exclude st
     = snapshot e source dest debug compress2 exclude st
   \<and> build_commands e source dest debug compress1 exclude
     = build_commands e source dest debug compress2 exclude
   \<and> (\<exists>c. build_commands e source dest debug compress1 exclude = Inr c
          \<and> ''--compress'' \<in> set (split_ws (rsync_cmd c)))"
proof -
  have b: "build_commands e source dest debug compress1 exclude
             = build_commands e source dest debug compress2 exclude"
    by (simp add: build_commands_def)
  then have s: "snapshot e source dest debug compress1 exclude st
                  = snapshot e source dest debug compress2 exclude st"
    by (simp add: snapshot_def)
  obtain c where c: "build_commands e source dest debug compress1 exclude = Inr c"
    using build_commands_total by blast
  have "''--compress'' \<in> set (rsync_options e debug exclude)"
    by (simp add: rsync_options_def fixed_options_def)
  then have "''--compress'' \<in> set (split_ws (rsync_cmd c))"
    by (rule option_in_rsync_cmd [OF c]) (simp_all add: is_space_def)
  with b s c show ?thesis by blast
qed

end
